theory Spec2Isabelle
  imports Complex_Main "HOL-Library.AList"
begin

section \<open>Python values, errors and small library functions\<close>

text \<open>
  The exceptions the two modules can raise. \<open>ValueError\<close> carries its message;
  \<open>KeyError\<close> and \<open>NameError\<close> carry the key or name that was looked up;
  \<open>EngineError\<close> stands for any exception raised inside the Elasticsearch client,
  which the wrapper lets through unchanged.
\<close>

datatype error =
    ValueError string
  | IndexError
  | KeyError string
  | NameError string
  | EngineError

text \<open>
  A Python \<open>dict\<close> with \<open>str\<close> keys and \<open>str\<close> values (\<open>Dict[str, str]\<close>), as the
  list of its items in insertion order; the keys of a dict are distinct. An example of
  the selector and the metadata of a document are such dicts.
\<close>

type_synonym pydict = "(string \<times> string) list"

text \<open>An embedding vector is a list of numbers; the number type is left open.\<close>

type_synonym 'a vector = "'a list"

text \<open>\<open>sep.join(xs)\<close> of Python's \<open>str\<close>.\<close>

fun join :: "string \<Rightarrow> string list \<Rightarrow> string" where
  "join sep [] = []"
| "join sep [x] = x"
| "join sep (x # y # ys) = x @ sep @ join sep (y # ys)"

text \<open>\<open>d.values()\<close>: the values in the dict's iteration order.\<close>

definition dict_values :: "pydict \<Rightarrow> string list" where
  "dict_values d = map snd d"

text \<open>
  The slice \<open>xs[:k]\<close> for a Python \<open>int\<close> \<open>k\<close>: the first \<open>k\<close> elements, or, for a
  negative \<open>k\<close>, all but the last \<open>-k\<close>.
\<close>

definition slice_upto :: "int \<Rightarrow> 'b list \<Rightarrow> 'b list" where
  "slice_upto k xs =
     (if 0 \<le> k then take (nat k) xs else take (length xs - nat (- k)) xs)"

text \<open>
  Modelled from the spec: \<open>langchain.docstore.document.Document\<close> is imported by both
  modules and is not among the sources. The spec has it as a value with a text payload
  and an optional mapping of metadata, and a document made from a text alone has empty
  metadata.
\<close>

record document =
  page_content :: string
  metadata :: pydict

definition Document :: "string \<Rightarrow> document" where
  "Document t = \<lparr>page_content = t, metadata = []\<rparr>"

text \<open>
  The \<open>Embeddings\<close> capability (\<open>langchain.embeddings.base\<close>, an interface): a batch
  function and a single-item function, both given from outside.
\<close>

record 'a embeddings =
  embed_documents :: "string list \<Rightarrow> 'a vector list"
  embed_query :: "string \<Rightarrow> 'a vector"

section \<open>The Elasticsearch wrapper (vectorstores/elastic\_vector\_search.py)\<close>

subsection \<open>Requests and the engine\<close>

text \<open>\<open>_default_text_mapping(dim)\<close>: the two properties of the index schema.\<close>

datatype field_type = TextField | DenseVector nat

definition default_text_mapping :: "nat \<Rightarrow> (string \<times> field_type) list" where
  "default_text_mapping dims = [(''text'', TextField), (''vector'', DenseVector dims)]"

text \<open>
  \<open>_default_script_query(query_vector)\<close>: a \<open>script_score\<close> query over \<open>match_all\<close>
  with the script source and its one parameter.
\<close>

record 'a script_query =
  script_source :: string
  query_vector :: "'a vector"

definition default_script_query :: "'a vector \<Rightarrow> 'a script_query" where
  "default_script_query qv =
     \<lparr>script_source = ''cosineSimilarity(params.query_vector, 'vector') + 1.0'',
      query_vector = qv\<rparr>"

text \<open>One action of a bulk request, with the keys of the source's dict.\<close>

record 'a request =
  req_op_type :: string
  req_index :: string
  req_vector :: "'a vector"
  req_text :: string

text \<open>The \<open>_source\<close> of a search hit: the fields that were indexed.\<close>

record 'a hit =
  src_text :: string
  src_vector :: "'a vector"

text \<open>
  The calls the wrapper makes on its client, in the order it makes them. The state of
  the outside world is the list of the calls made so far.
\<close>

datatype 'a call =
    IndicesCreate string "(string \<times> field_type) list"
  | Bulk "'a request list"
  | IndicesRefresh string
  | Search string "'a script_query"

text \<open>
  The engine is not part of the repository: it is a parameter. \<open>rejects\<close> says whether
  the client raises on a call, given the calls before it; \<open>search_hits\<close> is the list
  \<open>response["hits"]["hits"]\<close> the engine answers a search with.
\<close>

record 'a engine =
  rejects :: "'a call list \<Rightarrow> 'a call \<Rightarrow> bool"
  search_hits :: "'a call list \<Rightarrow> string \<Rightarrow> 'a script_query \<Rightarrow> 'a hit list"

text \<open>
  What the calls so far have put into the index \<open>name\<close>: the sources of the bulk
  actions addressed to it, in order.
\<close>

fun indexed :: "'a call list \<Rightarrow> string \<Rightarrow> 'a hit list" where
  "indexed [] name = []"
| "indexed (Bulk rs # cs) name =
     map (\<lambda>r. \<lparr>src_text = req_text r, src_vector = req_vector r\<rparr>)
       (filter (\<lambda>r. req_index r = name) rs) @ indexed cs name"
| "indexed (c # cs) name = indexed cs name"

text \<open>
  What the process reads from its surroundings: \<open>os.environ\<close>, whether the
  \<open>elasticsearch\<close> package imports, the \<open>ValueError\<close> message (if any) with which
  \<open>elasticsearch.Elasticsearch(url)\<close> refuses a URL, and the value of
  \<open>uuid.uuid4().hex\<close>.
\<close>

record pyenv =
  environ :: "string \<Rightarrow> string option"
  es_importable :: bool
  client_error :: "string \<Rightarrow> string option"
  uuid4_hex :: string

text \<open>
  The keyword arguments \<open>**kwargs\<close> of \<open>from_texts\<close>: the one it reads, and the
  \<open>metadatas\<close> that callers of the \<open>VectorStore\<close> interface pass.
\<close>

record kwargs =
  elasticsearch_url :: "string option"
  metadatas :: "pydict list option"

subsection \<open>The class\<close>

record 'a ElasticVectorSearch =
  embedding_function :: "string \<Rightarrow> 'a vector"
  index_name :: string
  client :: string

definition import_message :: string where
  "import_message =
     ''Could not import elasticsearch python packge. '' @
     ''Please install it with `pip install elasticearch`.''"

definition misformatted_message :: "string \<Rightarrow> string" where
  "misformatted_message e =
     ''Your elasticsearch client string is misformatted. '' @ ''Got error: '' @ e @ '' ''"

definition missing_url_message :: string where
  "missing_url_message =
     ''Did not find Elasticsearch URL, please add an environment variable'' @
     '' `ELASTICSEARCH_URL` which contains it, or pass'' @
     ''  `elasticsearch_url` as a named parameter.''"

text \<open>\<open>__init__\<close>: the import, then the client.\<close>

definition init ::
  "pyenv \<Rightarrow> string \<Rightarrow> string \<Rightarrow> (string \<Rightarrow> 'a vector) \<Rightarrow> error + 'a ElasticVectorSearch" where
  "init env url name f =
     (if \<not> es_importable env then Inl (ValueError import_message)
      else case client_error env url of
        Some e \<Rightarrow> Inl (ValueError (misformatted_message e))
      | None \<Rightarrow> Inr \<lparr>embedding_function = f, index_name = name, client = url\<rparr>)"

text \<open>
  \<open>add_texts\<close>: the loop builds one request per text, embedding it with the
  instance's function. The next statement calls \<open>bulk\<close>, a name the module never
  binds (it is imported only inside \<open>from_texts\<close>, as a local of that function), so the
  call raises \<open>NameError\<close>; the refresh after it is never reached.
\<close>

definition add_texts ::
  "'a engine \<Rightarrow> 'a ElasticVectorSearch \<Rightarrow> string list \<Rightarrow> 'a call list
     \<Rightarrow> (error + unit) \<times> 'a call list" where
  "add_texts eng self texts tr =
     (let requests =
        map (\<lambda>t. \<lparr>req_op_type = ''index'', req_index = index_name self,
                   req_vector = embedding_function self t, req_text = t\<rparr>) texts
      in (Inl (NameError ''bulk''), tr))"

text \<open>\<open>similarity_search\<close>: one search call, the first \<open>k\<close> hits, one document per hit.\<close>

definition similarity_search ::
  "'a engine \<Rightarrow> 'a ElasticVectorSearch \<Rightarrow> string \<Rightarrow> int \<Rightarrow> 'a call list
     \<Rightarrow> (error + document list) \<times> 'a call list" where
  "similarity_search eng self query k tr =
     (let embedding = embedding_function self query;
          script_query = default_script_query embedding;
          c = Search (index_name self) script_query
      in if rejects eng tr c then (Inl EngineError, tr @ [c])
         else
           let response = search_hits eng tr (index_name self) script_query;
               texts = map src_text (slice_upto k response);
               documents = map Document texts
           in (Inr documents, tr @ [c]))"

text \<open>
  The loop of \<open>from_texts\<close> over \<open>enumerate(texts)\<close>: \<open>embeddings[i]\<close> raises
  \<open>IndexError\<close> when the batch returned fewer vectors than there are texts.
\<close>

fun build_requests ::
  "string \<Rightarrow> 'a vector list \<Rightarrow> nat \<Rightarrow> string list \<Rightarrow> error + 'a request list" where
  "build_requests name embs i [] = Inr []"
| "build_requests name embs i (t # ts) =
     (if i < length embs then
        (case build_requests name embs (Suc i) ts of
           Inl e \<Rightarrow> Inl e
         | Inr rs \<Rightarrow>
             Inr (\<lparr>req_op_type = ''index'', req_index = name,
                   req_vector = embs ! i, req_text = t\<rparr> # rs))
      else Inl IndexError)"

text \<open>
  The first statements of \<open>from_texts\<close>: the URL from the keyword argument, or, when
  that is missing or empty (\<open>not elasticsearch_url\<close>), from the environment; a
  \<open>ValueError\<close> when the environment has none or an empty one.
\<close>

definition resolve_url :: "pyenv \<Rightarrow> kwargs \<Rightarrow> error + string" where
  "resolve_url env kw =
     (let url1 = elasticsearch_url kw in
      if url1 = None \<or> url1 = Some [] then
        (let url2 = environ env ''ELASTICSEARCH_URL'' in
         if url2 = None \<or> url2 = Some [] then Inl (ValueError missing_url_message)
         else Inr (the url2))
      else Inr (the url1))"

text \<open>
  \<open>from_texts\<close>, statement by statement. \<open>embeddings[0]\<close> raises \<open>IndexError\<close> on
  an empty list. The result comes with the calls made, also when it is an error.
\<close>

definition from_texts ::
  "pyenv \<Rightarrow> 'a engine \<Rightarrow> string list \<Rightarrow> 'a embeddings \<Rightarrow> kwargs \<Rightarrow> 'a call list
     \<Rightarrow> (error + 'a ElasticVectorSearch) \<times> 'a call list" where
  "from_texts env eng texts embedding kw tr =
     (case resolve_url env kw of
        Inl e \<Rightarrow> (Inl e, tr)
      | Inr url \<Rightarrow>
          if \<not> es_importable env then (Inl (ValueError import_message), tr)
          else
            case client_error env url of
              Some e \<Rightarrow> (Inl (ValueError (misformatted_message e)), tr)
            | None \<Rightarrow>
                let name = uuid4_hex env;
                    embs = embed_documents embedding texts
                in case embs of
                     [] \<Rightarrow> (Inl IndexError, tr)
                   | e0 # _ \<Rightarrow>
                       let dim = length e0;
                           mapping = default_text_mapping dim;
                           c1 = IndicesCreate name mapping;
                           tr1 = tr @ [c1]
                       in if rejects eng tr c1 then (Inl EngineError, tr1)
                          else
                            case build_requests name embs 0 texts of
                              Inl e \<Rightarrow> (Inl e, tr1)
                            | Inr requests \<Rightarrow>
                                let c2 = Bulk requests; tr2 = tr1 @ [c2] in
                                if rejects eng tr1 c2 then (Inl EngineError, tr2)
                                else
                                  let c3 = IndicesRefresh name; tr3 = tr2 @ [c3] in
                                  if rejects eng tr2 c3 then (Inl EngineError, tr3)
                                  else (init env url name (embed_query embedding), tr3))"

section \<open>The example selector (prompts/example\_selector/semantic\_similarity.py)\<close>

text \<open>
  The \<open>VectorStore\<close> interface (vectorstores/base.py) has no implementation of its
  own: an instance is its \<open>similarity_search\<close>, and a class is its \<open>from_texts\<close>
  (texts, embedding, \<open>metadatas\<close>, further keyword arguments).
\<close>

type_synonym VectorStore = "string \<Rightarrow> int \<Rightarrow> error + document list"

type_synonym ('e, 'kw) VectorStore_cls =
  "string list \<Rightarrow> 'e \<Rightarrow> pydict list option \<Rightarrow> 'kw \<Rightarrow> error + VectorStore"

record selector =
  vectorstore :: VectorStore
  sel_k :: int
  example_keys :: "string list option"

text \<open>\<open>d[key]\<close>: \<open>KeyError\<close> when the key is absent.\<close>

definition getitem :: "pydict \<Rightarrow> string \<Rightarrow> error + string" where
  "getitem d key = (case map_of d key of None \<Rightarrow> Inl (KeyError key) | Some v \<Rightarrow> Inr v)"

text \<open>
  The dict comprehension \<open>{k: eg[k] for k in keys}\<close>, with the dict built so far: a
  key met again keeps its place.
\<close>

fun dict_comp :: "string list \<Rightarrow> pydict \<Rightarrow> pydict \<Rightarrow> error + pydict" where
  "dict_comp [] eg acc = Inr acc"
| "dict_comp (key # keys) eg acc =
     (case getitem eg key of
        Inl e \<Rightarrow> Inl e
      | Inr v \<Rightarrow> dict_comp keys eg (AList.update key v acc))"

text \<open>The list comprehension over the examples: the first error ends it.\<close>

fun filter_examples :: "string list \<Rightarrow> pydict list \<Rightarrow> error + pydict list" where
  "filter_examples keys [] = Inr []"
| "filter_examples keys (eg # egs) =
     (case dict_comp keys eg [] of
        Inl e \<Rightarrow> Inl e
      | Inr d \<Rightarrow>
          (case filter_examples keys egs of
             Inl e \<Rightarrow> Inl e
           | Inr ds \<Rightarrow> Inr (d # ds)))"

text \<open>The truth value of an \<open>Optional[List[str]]\<close>: \<open>None\<close> and \<open>[]\<close> are false.\<close>

definition truthy :: "string list option \<Rightarrow> bool" where
  "truthy ks = (case ks of None \<Rightarrow> False | Some l \<Rightarrow> l \<noteq> [])"

text \<open>
  \<open>select_examples\<close>. \<open>dict(e.metadata)\<close> copies a dict, so the copy is the dict
  itself.
\<close>

definition select_examples :: "selector \<Rightarrow> pydict \<Rightarrow> error + pydict list" where
  "select_examples self input_variables =
     (let query = join '' '' (dict_values input_variables) in
      case vectorstore self query (sel_k self) of
        Inl e \<Rightarrow> Inl e
      | Inr example_docs \<Rightarrow>
          let examples = map metadata example_docs in
          if truthy (example_keys self)
          then filter_examples (the (example_keys self)) examples
          else Inr examples)"

text \<open>\<open>from_examples\<close>: the selector it returns has no \<open>example_keys\<close>.\<close>

definition from_examples ::
  "pydict list \<Rightarrow> 'e \<Rightarrow> ('e, 'kw) VectorStore_cls \<Rightarrow> int \<Rightarrow> 'kw \<Rightarrow> error + selector" where
  "from_examples examples embeddings vectorstore_cls k kw =
     (let string_examples = map (\<lambda>eg. join '' '' (dict_values eg)) examples in
      case vectorstore_cls string_examples embeddings (Some examples) kw of
        Inl e \<Rightarrow> Inl e
      | Inr vs \<Rightarrow> Inr \<lparr>vectorstore = vs, sel_k = k, example_keys = None\<rparr>)"

section \<open>Concrete surroundings\<close>

text \<open>
  Values for the parameters, to run the functions on. \<open>list_engine\<close> accepts every
  call and answers a search with everything indexed under the name: the entries whose
  vector equals the query vector first, then the others, each group in the order of
  indexing.
\<close>

definition exact_first :: "'a vector \<Rightarrow> 'a hit list \<Rightarrow> 'a hit list" where
  "exact_first q hs =
     filter (\<lambda>h. src_vector h = q) hs @ filter (\<lambda>h. src_vector h \<noteq> q) hs"

definition list_engine :: "'a engine" where
  "list_engine =
     \<lparr>rejects = (\<lambda>tr c. False),
      search_hits = (\<lambda>tr name q. exact_first (query_vector q) (indexed tr name))\<rparr>"

definition demo_env :: pyenv where
  "demo_env =
     \<lparr>environ = (\<lambda>v. None), es_importable = True, client_error = (\<lambda>u. None),
      uuid4_hex = ''9f1c''\<rparr>"

definition demo_kwargs :: kwargs where
  "demo_kwargs = \<lparr>elasticsearch_url = Some ''http://localhost:9200'', metadatas = None\<rparr>"

text \<open>An embedding: the length of the text as a one-element vector.\<close>

definition length_embeddings :: "nat embeddings" where
  "length_embeddings =
     \<lparr>embed_documents = map (\<lambda>t. [length t]), embed_query = (\<lambda>t. [length t])\<rparr>"

text \<open>The instance and the calls of \<open>from_texts\<close> on the texts \<open>a\<close> and \<open>bb\<close>.\<close>

definition demo_store :: "nat ElasticVectorSearch" where
  "demo_store =
     \<lparr>embedding_function = embed_query length_embeddings, index_name = ''9f1c'',
      client = ''http://localhost:9200''\<rparr>"

definition demo_trace :: "nat call list" where
  "demo_trace =
     [IndicesCreate ''9f1c'' (default_text_mapping 1),
      Bulk [\<lparr>req_op_type = ''index'', req_index = ''9f1c'', req_vector = [1],
             req_text = ''a''\<rparr>,
            \<lparr>req_op_type = ''index'', req_index = ''9f1c'', req_vector = [2],
             req_text = ''bb''\<rparr>],
      IndicesRefresh ''9f1c'']"

text \<open>
  A backend of the \<open>VectorStore\<close> interface that keeps its documents in a list, each
  text with its metadata, and answers a search with the documents whose text is the
  query first, then the others, each group in the order they were stored.
\<close>

definition stored_docs :: "string list \<Rightarrow> pydict list option \<Rightarrow> document list" where
  "stored_docs texts ms =
     map (\<lambda>(t, m). \<lparr>page_content = t, metadata = m\<rparr>)
       (zip texts (case ms of None \<Rightarrow> replicate (length texts) [] | Some l \<Rightarrow> l))"

definition ranked :: "string \<Rightarrow> document list \<Rightarrow> document list" where
  "ranked query docs =
     filter (\<lambda>d. page_content d = query) docs @ filter (\<lambda>d. page_content d \<noteq> query) docs"

definition list_backend :: "('e, 'kw) VectorStore_cls" where
  "list_backend texts embedding ms kw =
     Inr (\<lambda>query k. Inr (slice_upto k (ranked query (stored_docs texts ms))))"

text \<open>
  Examples: the two of the specification; two that flatten to the same text; and a
  selector over a store whose second example has no field \<open>a\<close>.
\<close>

definition demo_examples :: "pydict list" where
  "demo_examples =
     [[(''q'', ''2+2''), (''a'', ''4'')], [(''q'', ''ocean color''), (''a'', ''blue'')]]"

definition clash_examples :: "pydict list" where
  "clash_examples =
     [[(''q'', ''a b''), (''a'', ''c'')], [(''q'', ''a''), (''a'', ''b c'')]]"

definition demo_selector :: "string list option \<Rightarrow> selector" where
  "demo_selector ks =
     \<lparr>vectorstore = (\<lambda>query k. Inr (slice_upto k (ranked query
        (stored_docs [''2+2 4'', ''ocean color''] (Some [[(''q'', ''2+2''), (''a'', ''4'')], [(''q'', ''ocean color'')]]))))),
      sel_k = 4, example_keys = ks\<rparr>"

section \<open>Contracts for the engine and for a backend\<close>



text \<open>
  An engine that ranks by a score: when anything is indexed under the name, the first
  hit is an indexed entry whose score against the query vector is the highest.
\<close>

definition ranks_by :: "('a vector \<Rightarrow> 'a vector \<Rightarrow> real) \<Rightarrow> 'a engine \<Rightarrow> bool" where
  "ranks_by score eng \<longleftrightarrow>
     (\<forall>tr name q. indexed tr name \<noteq> [] \<longrightarrow>
        (\<exists>h hs. search_hits eng tr name q = h # hs \<and> h \<in> set (indexed tr name) \<and>
           (\<forall>h'\<in>set (indexed tr name).
              score (query_vector q) (src_vector h') \<le> score (query_vector q) (src_vector h))))"

text \<open>
  The score the script of \<open>_default_script_query\<close> names,
  \<open>cosineSimilarity(params.query_vector, 'vector') + 1.0\<close>, over the reals, and an
  engine that sorts what is indexed by it, highest first, keeping the order of indexing
  among equal scores.
\<close>

definition dot :: "real vector \<Rightarrow> real vector \<Rightarrow> real" where
  "dot u v = sum_list (map (\<lambda>(x, y). x * y) (zip u v))"

definition cosine_score :: "real vector \<Rightarrow> real vector \<Rightarrow> real" where
  "cosine_score q v = dot q v / (sqrt (dot q q) * sqrt (dot v v)) + 1"

definition cosine_engine :: "real engine" where
  "cosine_engine =
     \<lparr>rejects = (\<lambda>tr c. False),
      search_hits = (\<lambda>tr name q.
        sort_key (\<lambda>h. - cosine_score (query_vector q) (src_vector h)) (indexed tr name))\<rparr>"

text \<open>
  Two embeddings into the plane: one sends the text \<open>a\<close> to the first axis and every
  other text to the second; the other sends every text to the same vector.
\<close>

definition axis_embeddings :: "real embeddings" where
  "axis_embeddings =
     \<lparr>embed_documents = map (\<lambda>t. if t = ''a'' then [1, 0] else [0, 1]),
      embed_query = (\<lambda>t. if t = ''a'' then [1, 0] else [0, 1])\<rparr>"

definition same_embeddings :: "real embeddings" where
  "same_embeddings = \<lparr>embed_documents = map (\<lambda>t. [1, 0]), embed_query = (\<lambda>t. [1, 0])\<rparr>"

text \<open>
  A backend that keeps what it is given and finds a stored text again: every document
  of an answer is a stored text with the metadata given for it, and the first hit of a
  search for a stored text, with a positive \<open>k\<close>, has that text.
\<close>

definition faithful_backend :: "('e, 'kw) VectorStore_cls \<Rightarrow> bool" where
  "faithful_backend cls \<longleftrightarrow>
     (\<forall>texts embedding ms kw vs. cls texts embedding (Some ms) kw = Inr vs \<longrightarrow>
        length ms = length texts \<longrightarrow>
          (\<forall>query k docs. vs query k = Inr docs \<longrightarrow>
             (\<forall>d\<in>set docs. \<exists>j<length texts. page_content d = texts ! j \<and> metadata d = ms ! j)) \<and>
          (\<forall>i k. i < length texts \<longrightarrow> 0 < k \<longrightarrow>
             (\<exists>d ds. vs (texts ! i) k = Inr (d # ds) \<and> page_content d = texts ! i)))"


section \<open>The flattening, in the words of the specification\<close>

text \<open>
  The values of the mapping in its iteration order, joined with single spaces: the
  first value, then every further value after one space. The keys play no part.
\<close>

fun flatten_spec :: "pydict \<Rightarrow> string" where
  "flatten_spec [] = []"
| "flatten_spec ((key, v) # rest) = v @ concat (map (\<lambda>(key', w). CHR '' '' # w) rest)"

section \<open>The Elasticsearch wrapper: what it sends and what it returns\<close>

lemma indexed_append: "indexed (xs @ ys) name = indexed xs name @ indexed ys name"
  by (induction xs name rule: indexed.induct) simp_all

lemma build_requests_eq:
  "build_requests name embs i ts = Inr rs \<Longrightarrow>
     rs = map (\<lambda>(t, v). \<lparr>req_op_type = ''index'', req_index = name,
                          req_vector = v, req_text = t\<rparr>)
            (zip ts (drop i embs))"
proof (induction ts arbitrary: i rs)
  case Nil
  then show ?case by simp
next
  case (Cons t ts)
  from Cons.prems obtain rs' where i: "i < length embs"
    and rs': "build_requests name embs (Suc i) ts = Inr rs'"
    and rs: "rs = \<lparr>req_op_type = ''index'', req_index = name,
                   req_vector = embs ! i, req_text = t\<rparr> # rs'"
    by (auto split: if_splits sum.splits)
  have "drop i embs = embs ! i # drop (Suc i) embs"
    using i by (simp add: Cons_nth_drop_Suc)
  with Cons.IH [OF rs'] rs show ?case by simp
qed

lemma build_requests_bound:
  "build_requests name embs i ts = Inr rs \<Longrightarrow> ts \<noteq> [] \<Longrightarrow> i + length ts \<le> length embs"
proof (induction ts arbitrary: i rs)
  case Nil
  then show ?case by simp
next
  case (Cons t ts)
  from Cons.prems obtain rs' where i: "i < length embs"
    and rs': "build_requests name embs (Suc i) ts = Inr rs'"
    by (auto split: if_splits sum.splits)
  show ?case
  proof (cases "ts = []")
    case True
    with i show ?thesis by simp
  next
    case False
    from Cons.IH [OF rs' False] show ?thesis by simp
  qed
qed

text \<open>A successful \<open>from_texts\<close> made exactly three calls and returns this instance.\<close>

lemma from_texts_Inr:
  assumes "from_texts env eng texts embedding kw tr = (Inr store, tr')"
  obtains url requests where
    "resolve_url env kw = Inr url"
    "embed_documents embedding texts \<noteq> []"
    "build_requests (uuid4_hex env) (embed_documents embedding texts) 0 texts = Inr requests"
    "tr' = tr @ [IndicesCreate (uuid4_hex env)
                   (default_text_mapping (length (hd (embed_documents embedding texts)))),
                 Bulk requests, IndicesRefresh (uuid4_hex env)]"
    "store = \<lparr>embedding_function = embed_query embedding, index_name = uuid4_hex env,
              client = url\<rparr>"
  using assms
  by (auto simp: from_texts_def Let_def init_def
      split: sum.splits if_splits option.splits list.splits)

lemma indexed_from_texts:
  assumes built: "from_texts env eng texts embedding kw tr0 = (Inr store, tr1)"
  shows "indexed tr1 (index_name store) =
           indexed tr0 (index_name store) @
           map (\<lambda>(t, v). \<lparr>src_text = t, src_vector = v\<rparr>)
             (zip texts (embed_documents embedding texts))"
proof -
  from built obtain url requests where
    reqs: "build_requests (uuid4_hex env) (embed_documents embedding texts) 0 texts
             = Inr requests"
    and tr1: "tr1 = tr0 @ [IndicesCreate (uuid4_hex env)
                   (default_text_mapping (length (hd (embed_documents embedding texts)))),
                 Bulk requests, IndicesRefresh (uuid4_hex env)]"
    and store: "store = \<lparr>embedding_function = embed_query embedding,
                          index_name = uuid4_hex env, client = url\<rparr>"
    by (rule from_texts_Inr)
  from build_requests_eq [OF reqs] have
    "requests = map (\<lambda>(t, v). \<lparr>req_op_type = ''index'', req_index = uuid4_hex env,
                                 req_vector = v, req_text = t\<rparr>)
                  (zip texts (embed_documents embedding texts))"
    by simp
  then show ?thesis
    unfolding tr1 store by (simp add: indexed_append filter_map o_def split_def)
qed



text \<open>Runs on the concrete surroundings.\<close>

lemma demo_built:
  "from_texts demo_env list_engine [''a'', ''bb''] length_embeddings demo_kwargs [] =
     (Inr demo_store, demo_trace)"
  by (simp add: from_texts_def resolve_url_def demo_env_def demo_kwargs_def list_engine_def
      length_embeddings_def init_def Let_def demo_store_def demo_trace_def)

lemma demo_hits:
  "search_hits list_engine demo_trace (index_name demo_store)
     (default_script_query (embedding_function demo_store ''bb'')) =
   [\<lparr>src_text = ''bb'', src_vector = [2]\<rparr>, \<lparr>src_text = ''a'', src_vector = [1]\<rparr>]"
  by (simp add: list_engine_def demo_store_def demo_trace_def length_embeddings_def
      exact_first_def default_script_query_def)


lemma demo_answers: "\<not> rejects list_engine tr c"
  by (simp add: list_engine_def)


text \<open>
  C5. When \<open>from_texts\<close> gets no \<open>elasticsearch_url\<close> (or an empty one) and the
  environment has no \<open>ELASTICSEARCH_URL\<close> (or an empty one), it raises the
  \<open>ValueError\<close> that says so, and has made no call on any client: the calls made are
  those made before.
\<close>

theorem from_texts_missing_endpoint:
  assumes "elasticsearch_url kw = None \<or> elasticsearch_url kw = Some []"
      and "environ env ''ELASTICSEARCH_URL'' = None \<or>
           environ env ''ELASTICSEARCH_URL'' = Some []"
  shows "from_texts env eng texts embedding kw tr =
           (Inl (ValueError missing_url_message), tr)"
  using assms by (auto simp: from_texts_def resolve_url_def)

theorem from_texts_missing_endpoint_witness:
  "elasticsearch_url (demo_kwargs\<lparr>elasticsearch_url := Some []\<rparr>) = Some [] \<and>
   environ demo_env ''ELASTICSEARCH_URL'' = None \<and>
   from_texts demo_env list_engine [''a''] length_embeddings
       (demo_kwargs\<lparr>elasticsearch_url := Some []\<rparr>) [] =
     (Inl (ValueError missing_url_message), [])"
  using from_texts_missing_endpoint
    [of "demo_kwargs\<lparr>elasticsearch_url := Some []\<rparr>" demo_env list_engine "[''a'']"
        length_embeddings "[]"]
  by (simp add: demo_env_def demo_kwargs_def)

text \<open>
  C9. With an endpoint that resolves, the package importable and the client accepting
  the URL, \<open>from_texts\<close> on the empty list of texts, whose batch embedding is the empty
  list, raises \<open>IndexError\<close> at \<open>embeddings[0]\<close>: no index has been created (no call
  was made), and the result is not an instance.
\<close>

theorem from_texts_empty_texts:
  assumes "resolve_url env kw = Inr url"
      and "es_importable env"
      and "client_error env url = None"
      and "embed_documents embedding [] = []"
  shows "from_texts env eng [] embedding kw tr = (Inl IndexError, tr)"
  using assms by (simp add: from_texts_def)

theorem from_texts_empty_texts_witness:
  "resolve_url demo_env demo_kwargs = Inr ''http://localhost:9200'' \<and>
   es_importable demo_env \<and>
   client_error demo_env ''http://localhost:9200'' = None \<and>
   embed_documents length_embeddings [] = [] \<and>
   from_texts demo_env list_engine [] length_embeddings demo_kwargs [] = (Inl IndexError, [])"
proof -
  have r: "resolve_url demo_env demo_kwargs = Inr ''http://localhost:9200''"
    by (simp add: resolve_url_def demo_kwargs_def)
  have i: "es_importable demo_env" and c: "client_error demo_env ''http://localhost:9200'' = None"
    by (simp_all add: demo_env_def)
  have e: "embed_documents length_embeddings [] = []"
    by (simp add: length_embeddings_def)
  from from_texts_empty_texts [OF r i c e, of list_engine "[]"] r i c e
  show ?thesis by simp
qed

text \<open>
  C4, as the code has it: \<open>add_texts\<close> raises \<open>NameError\<close> for every instance and every
  list of texts, and makes no call: nothing is bulk-indexed and no index is refreshed.
\<close>

theorem add_texts_raises_NameError:
  "add_texts eng self texts tr = (Inl (NameError ''bulk''), tr)"
  by (simp add: add_texts_def)

text \<open>
  C3. Every document that \<open>similarity_search\<close> returns, on any instance, has empty
  metadata; and \<open>from_texts\<close> does the same whatever \<open>metadatas\<close> it is given.
\<close>

theorem metadata_never_returned:
  assumes "similarity_search eng self query k tr = (Inr docs, tr')"
  shows "(\<forall>d\<in>set docs. metadata d = []) \<and>
         from_texts env eng texts embedding (kw\<lparr>metadatas := ms\<rparr>) tr0 =
           from_texts env eng texts embedding kw tr0"
  using assms
  by (auto simp: similarity_search_def Let_def Document_def from_texts_def resolve_url_def
      split: if_splits)

theorem metadata_never_returned_witness:
  "fst (from_texts demo_env list_engine [''a'', ''bb''] length_embeddings
       (demo_kwargs\<lparr>metadatas := Some [[(''q'', ''a'')], [(''q'', ''bb'')]]\<rparr>) []) = Inr demo_store \<and>
   fst (similarity_search list_engine demo_store ''bb'' 5 demo_trace) =
       Inr [\<lparr>page_content = ''bb'', metadata = []\<rparr>,
            \<lparr>page_content = ''a'', metadata = []\<rparr>]"
proof -
  obtain docs tr' where run: "similarity_search list_engine demo_store ''bb'' 5 demo_trace = (Inr docs, tr')"
    and docs: "docs = [Document ''bb'', Document ''a'']"
    using demo_answers [of demo_trace] demo_hits
    by (simp add: similarity_search_def Let_def slice_upto_def)
  from metadata_never_returned [OF run, where env = demo_env and texts = "[''a'', ''bb'']"
      and embedding = length_embeddings and kw = demo_kwargs
      and ms = "Some [[(''q'', ''a'')], [(''q'', ''bb'')]]" and ?tr0.0 = "[]"]
    run docs demo_built
  show ?thesis by (simp add: Document_def)
qed








text \<open>The cosine engine ranks by the cosine score; a run on it.\<close>

lemma cosine_engine_ranks: "ranks_by cosine_score cosine_engine"
  unfolding ranks_by_def
proof (intro allI impI)
  fix tr :: "real call list" and name :: string and q :: "real script_query"
  let ?f = "\<lambda>h. - cosine_score (query_vector q) (src_vector h)"
  let ?xs = "indexed tr name"
  assume ne: "?xs \<noteq> []"
  have hits: "search_hits cosine_engine tr name q = sort_key ?f ?xs"
    by (simp add: cosine_engine_def)
  from ne have "sort_key ?f ?xs \<noteq> []"
    by (metis length_0_conv length_sort)
  then obtain h hs where hhs: "sort_key ?f ?xs = h # hs"
    by (cases "sort_key ?f ?xs") auto
  have "sorted (map ?f (sort_key ?f ?xs))"
    by (rule sorted_sort_key)
  with hhs have le: "\<forall>x\<in>set hs. ?f h \<le> ?f x"
    by simp
  have "set (h # hs) = set ?xs"
    using hhs by (metis set_sort)
  then have mem: "h \<in> set ?xs" and all: "\<forall>h'\<in>set ?xs. h' = h \<or> h' \<in> set hs"
    by auto
  from le all have "\<forall>h'\<in>set ?xs.
      cosine_score (query_vector q) (src_vector h') \<le> cosine_score (query_vector q) (src_vector h)"
    by auto
  with hits hhs mem
  show "\<exists>h hs. search_hits cosine_engine tr name q = h # hs \<and> h \<in> set ?xs \<and>
      (\<forall>h'\<in>set ?xs. cosine_score (query_vector q) (src_vector h')
         \<le> cosine_score (query_vector q) (src_vector h))"
    by auto
qed

lemma cosine_answers: "\<not> rejects cosine_engine tr c"
  by (simp add: cosine_engine_def)

lemma axis_built:
  "from_texts demo_env cosine_engine [''a'', ''bb''] axis_embeddings demo_kwargs [] =
     (Inr \<lparr>embedding_function = embed_query axis_embeddings, index_name = ''9f1c'',
           client = ''http://localhost:9200''\<rparr>,
      [IndicesCreate ''9f1c'' (default_text_mapping 2),
       Bulk [\<lparr>req_op_type = ''index'', req_index = ''9f1c'', req_vector = [1, 0],
              req_text = ''a''\<rparr>,
             \<lparr>req_op_type = ''index'', req_index = ''9f1c'', req_vector = [0, 1],
              req_text = ''bb''\<rparr>],
       IndicesRefresh ''9f1c''])"
  by (simp add: from_texts_def resolve_url_def demo_env_def demo_kwargs_def cosine_engine_def
      axis_embeddings_def init_def Let_def numeral_2_eq_2)

text \<open>
  C2, amended. On a store built by \<open>from_texts\<close> under an index name not used
  before, with an engine that ranks by a score, \<open>similarity_search(texts[i], k=1)\<close>
  returns the single document \<open>texts[i]\<close> when the single-item embedding of
  \<open>texts[i]\<close> is the vector stored for it and every text different from \<open>texts[i]\<close>
  has a vector that scores strictly lower against that vector than the vector itself
  (for the cosine score: no different text has a vector of the same direction). That
  the entry is in the index follows from \<open>from_texts\<close>.
\<close>

theorem identity_retrieval_separated:
  assumes built: "from_texts env eng texts embedding kw tr0 = (Inr store, tr1)"
      and fresh: "indexed tr0 (uuid4_hex env) = []"
      and i: "i < length texts"
      and exact: "embed_query embedding (texts ! i) = embed_documents embedding texts ! i"
      and separated: "\<forall>j < length texts. texts ! j \<noteq> texts ! i \<longrightarrow>
                  score (embed_documents embedding texts ! i) (embed_documents embedding texts ! j)
                    < score (embed_documents embedding texts ! i)
                        (embed_documents embedding texts ! i)"
      and ranks: "ranks_by score eng"
      and answers: "\<not> rejects eng tr1 (Search (index_name store)
                       (default_script_query (embed_query embedding (texts ! i))))"
  shows "similarity_search eng store (texts ! i) 1 tr1 =
           (Inr [Document (texts ! i)],
            tr1 @ [Search (index_name store)
                     (default_script_query (embed_query embedding (texts ! i)))])"
proof -
  let ?embs = "embed_documents embedding texts"
  let ?q = "default_script_query (embed_query embedding (texts ! i))"
  from built obtain url requests where
    reqs: "build_requests (uuid4_hex env) ?embs 0 texts = Inr requests"
    and store: "store = \<lparr>embedding_function = embed_query embedding,
                      index_name = uuid4_hex env, client = url\<rparr>"
    by (rule from_texts_Inr)
  have name: "index_name store = uuid4_hex env"
    and ef: "embedding_function store = embed_query embedding"
    by (simp_all add: store)
  from i have "texts \<noteq> []" by auto
  from build_requests_bound [OF reqs this] have len: "length texts \<le> length ?embs"
    by simp
  have idx: "indexed tr1 (index_name store) =
          map (\<lambda>(t, v). \<lparr>src_text = t, src_vector = v\<rparr>) (zip texts ?embs)"
    using indexed_from_texts [OF built] fresh by (simp add: name)
  from i len have "(texts ! i, ?embs ! i) \<in> set (zip texts ?embs)"
    by (auto simp: set_zip)
  then have own: "\<lparr>src_text = texts ! i, src_vector = ?embs ! i\<rparr>
      \<in> set (indexed tr1 (index_name store))"
    unfolding idx by force
  then have "indexed tr1 (index_name store) \<noteq> []"
    by auto
  with ranks obtain h hs where
    hits: "search_hits eng tr1 (index_name store) ?q = h # hs"
    and mem: "h \<in> set (indexed tr1 (index_name store))"
    and best: "\<forall>h'\<in>set (indexed tr1 (index_name store)).
        score (query_vector ?q) (src_vector h') \<le> score (query_vector ?q) (src_vector h)"
    unfolding ranks_by_def by blast
  have qv: "query_vector ?q = ?embs ! i"
    by (simp add: default_script_query_def exact)
  from mem obtain t v where tv: "(t, v) \<in> set (zip texts ?embs)"
    and h: "h = \<lparr>src_text = t, src_vector = v\<rparr>"
    unfolding idx by auto
  from tv obtain j where j: "j < length texts" "t = texts ! j" "v = ?embs ! j"
    by (auto simp: set_zip)
  from best own have "score (?embs ! i) (?embs ! i) \<le> score (?embs ! i) (?embs ! j)"
    unfolding qv using h j by force
  with separated j have "texts ! j = texts ! i"
    by force
  with h j have "src_text h = texts ! i" by simp
  with answers hits show ?thesis
    by (simp add: similarity_search_def Let_def name ef slice_upto_def)
qed

theorem identity_retrieval_separated_witness:
  "embed_query axis_embeddings ([''a'', ''bb''] ! 1) =
     embed_documents axis_embeddings [''a'', ''bb''] ! 1 \<and>
   cosine_score [0, 1] [1, 0] < cosine_score [0, 1] [0, 1] \<and>
   ranks_by cosine_score cosine_engine \<and>
   (case from_texts demo_env cosine_engine [''a'', ''bb''] axis_embeddings demo_kwargs [] of
      (Inr store, tr) \<Rightarrow>
        fst (similarity_search cosine_engine store ([''a'', ''bb''] ! 1) 1 tr) =
          Inr [Document ''bb'']
    | (Inl e, tr) \<Rightarrow> False)"
proof -
  have fresh: "indexed [] (uuid4_hex demo_env) = ([] :: real hit list)"
    by simp
  have i: "1 < length [''a'', ''bb'']"
    by simp
  have exact: "embed_query axis_embeddings ([''a'', ''bb''] ! 1) =
     embed_documents axis_embeddings [''a'', ''bb''] ! 1"
    by (simp add: axis_embeddings_def)
  have sc: "cosine_score [0, 1] [1, 0] < cosine_score [0, 1] [0, 1]"
    by (simp add: cosine_score_def dot_def)
  have sep: "\<forall>j < length [''a'', ''bb'']. [''a'', ''bb''] ! j \<noteq> [''a'', ''bb''] ! 1 \<longrightarrow>
      cosine_score (embed_documents axis_embeddings [''a'', ''bb''] ! 1)
        (embed_documents axis_embeddings [''a'', ''bb''] ! j)
      < cosine_score (embed_documents axis_embeddings [''a'', ''bb''] ! 1)
        (embed_documents axis_embeddings [''a'', ''bb''] ! 1)"
    using sc by (simp add: axis_embeddings_def less_Suc_eq)
  from identity_retrieval_separated
    [OF axis_built fresh i exact sep cosine_engine_ranks cosine_answers]
  have "fst (similarity_search cosine_engine
         \<lparr>embedding_function = embed_query axis_embeddings, index_name = ''9f1c'',
           client = ''http://localhost:9200''\<rparr> ([''a'', ''bb''] ! 1) 1
         [IndicesCreate ''9f1c'' (default_text_mapping 2),
          Bulk [\<lparr>req_op_type = ''index'', req_index = ''9f1c'', req_vector = [1, 0],
                 req_text = ''a''\<rparr>,
                \<lparr>req_op_type = ''index'', req_index = ''9f1c'', req_vector = [0, 1],
                 req_text = ''bb''\<rparr>],
          IndicesRefresh ''9f1c'']) = Inr [Document ''bb'']"
    by simp
  with exact sc cosine_engine_ranks show ?thesis
    by (simp add: axis_built)
qed

text \<open>
  C2 as stated fails. An embedding that sends every text to the same vector is
  deterministic and exact; on the cosine engine, which ranks by the score, the search
  for \<open>texts[1] = b\<close> returns the document \<open>a\<close>.
\<close>

theorem identity_retrieval_counterexample:
  "(case from_texts demo_env cosine_engine [''a'', ''b''] same_embeddings demo_kwargs [] of
      (Inr store, tr) \<Rightarrow>
        fst (similarity_search cosine_engine store ([''a'', ''b''] ! 1) 1 tr) = Inr [Document ''a'']
    | (Inl e, tr) \<Rightarrow> False)"
  by (simp add: from_texts_def resolve_url_def demo_env_def demo_kwargs_def cosine_engine_def
      same_embeddings_def init_def Let_def similarity_search_def default_script_query_def
      slice_upto_def cosine_score_def dot_def)

text \<open>
  Whatever the engine: two queries with the same vector get the same result, so at
  most one of two different texts with equal vectors is retrieved with \<open>k = 1\<close>.
\<close>

lemma same_vector_same_answer:
  "embedding_function self q1 = embedding_function self q2 \<Longrightarrow>
     similarity_search eng self q1 k tr = similarity_search eng self q2 k tr"
  by (simp add: similarity_search_def)

section \<open>The example selector: flattening, projection, round trip\<close>

lemma join_Cons: "join sep (x # xs) = x @ concat (map (\<lambda>w. sep @ w) xs)"
  by (induction xs arbitrary: x) simp_all

lemma join_flatten_spec: "join '' '' (dict_values d) = flatten_spec d"
proof (cases d)
  case Nil
  then show ?thesis by (simp add: dict_values_def)
next
  case (Cons p rest)
  obtain key v where p: "p = (key, v)" by (cases p)
  have "map (\<lambda>w. '' '' @ w) (map snd rest) = map (\<lambda>(key', w). CHR '' '' # w) rest"
    by (simp add: split_def)
  then have "concat (map (\<lambda>w. '' '' @ w) (map snd rest)) =
      concat (map (\<lambda>(key', w). CHR '' '' # w) rest)"
    by (rule arg_cong)
  with Cons p show ?thesis
    by (simp only: dict_values_def join_Cons flatten_spec.simps list.map snd_conv)
qed

lemma flatten_spec_values: "map snd d = map snd d' \<Longrightarrow> flatten_spec d = flatten_spec d'"
  by (simp add: join_flatten_spec [symmetric] dict_values_def)

lemma getitem_Inl: "getitem d key = Inl e \<longleftrightarrow> key \<notin> fst ` set d \<and> e = KeyError key"
  by (auto simp: getitem_def map_of_eq_None_iff [symmetric] split: option.splits)

text \<open>
  The comprehension fails exactly on a missing key, with that key; when it succeeds
  the result has the listed keys (besides those it started with), each once, with the
  values of the example.
\<close>

lemma dict_comp_Inl:
  "dict_comp keys eg acc = Inl e \<Longrightarrow> \<exists>key\<in>set keys. key \<notin> fst ` set eg \<and> e = KeyError key"
proof (induction keys arbitrary: acc)
  case Nil
  then show ?case by simp
next
  case (Cons key keys)
  show ?case
  proof (cases "getitem eg key")
    case (Inl e')
    with Cons.prems have "e' = e" by simp
    with Inl show ?thesis by (auto simp: getitem_Inl)
  next
    case (Inr v)
    with Cons.prems have "dict_comp keys eg (AList.update key v acc) = Inl e" by simp
    from Cons.IH [OF this] show ?thesis by auto
  qed
qed

lemma dict_comp_Inr:
  "dict_comp keys eg acc = Inr d \<Longrightarrow>
     set keys \<subseteq> fst ` set eg \<and>
     fst ` set d = set keys \<union> fst ` set acc \<and>
     (distinct (map fst acc) \<longrightarrow> distinct (map fst d)) \<and>
     (\<forall>key\<in>set keys. map_of d key = map_of eg key) \<and>
     (\<forall>key. key \<notin> set keys \<longrightarrow> map_of d key = map_of acc key)"
proof (induction keys arbitrary: acc)
  case Nil
  then show ?case by simp
next
  case (Cons key keys)
  from Cons.prems obtain v where v: "map_of eg key = Some v"
    and rest: "dict_comp keys eg (AList.update key v acc) = Inr d"
    by (auto simp: getitem_def split: option.splits sum.splits)
  from v have key: "key \<in> fst ` set eg"
    by (metis map_of_eq_None_iff option.distinct(1))
  note ih = Cons.IH [OF rest]
  have "map_of d key = map_of eg key"
  proof (cases "key \<in> set keys")
    case True
    with ih show ?thesis by blast
  next
    case False
    with ih have "map_of d key = map_of (AList.update key v acc) key" by blast
    with v show ?thesis by (simp add: AList.update_conv')
  qed
  moreover have "\<forall>key'. key' \<notin> set (key # keys) \<longrightarrow> map_of d key' = map_of acc key'"
    using ih by (auto simp: AList.update_conv')
  moreover have "fst ` set d = set (key # keys) \<union> fst ` set acc"
    using ih by (auto simp: AList.dom_update)
  moreover have "distinct (map fst acc) \<longrightarrow> distinct (map fst d)"
    using ih by (simp add: AList.distinct_update)
  ultimately show ?case using ih key by auto
qed

lemma filter_examples_Inl:
  "filter_examples keys egs = Inl e \<Longrightarrow>
     \<exists>key\<in>set keys. \<exists>eg\<in>set egs. key \<notin> fst ` set eg \<and> e = KeyError key"
proof (induction egs arbitrary: e)
  case Nil
  then show ?case by simp
next
  case (Cons eg egs)
  show ?case
  proof (cases "dict_comp keys eg []")
    case (Inl e')
    with Cons.prems have "e' = e" by simp
    with dict_comp_Inl [OF Inl] show ?thesis by auto
  next
    case (Inr d)
    with Cons.prems have "filter_examples keys egs = Inl e"
      by (simp split: sum.splits)
    from Cons.IH [OF this] show ?thesis by auto
  qed
qed

lemma filter_examples_Inr:
  "filter_examples keys egs = Inr res \<Longrightarrow>
     length res = length egs \<and> (\<forall>j < length egs. dict_comp keys (egs ! j) [] = Inr (res ! j))"
proof (induction egs arbitrary: res)
  case Nil
  then show ?case by simp
next
  case (Cons eg egs)
  from Cons.prems obtain d ds where d: "dict_comp keys eg [] = Inr d"
    and ds: "filter_examples keys egs = Inr ds" and res: "res = d # ds"
    by (auto split: sum.splits)
  from Cons.IH [OF ds] d res show ?case
    by (auto simp: nth_Cons split: nat.splits)
qed

text \<open>
  C7. \<open>from_examples\<close> hands the backend, for each example, the example's values
  joined with single spaces in iteration order, and \<open>select_examples\<close> searches with
  the values of \<open>input_variables\<close> joined the same way: both are \<open>flatten_spec\<close>,
  which depends on the values only, not on the keys.
\<close>

theorem flatten_values_shared:
  "from_examples examples embeddings cls k kw =
     (case cls (map flatten_spec examples) embeddings (Some examples) kw of
        Inl e \<Rightarrow> Inl e
      | Inr vs \<Rightarrow> Inr \<lparr>vectorstore = vs, sel_k = k, example_keys = None\<rparr>) \<and>
   select_examples self input_variables =
     (case vectorstore self (flatten_spec input_variables) (sel_k self) of
        Inl e \<Rightarrow> Inl e
      | Inr docs \<Rightarrow>
          if truthy (example_keys self)
          then filter_examples (the (example_keys self)) (map metadata docs)
          else Inr (map metadata docs)) \<and>
   (map snd d = map snd d' \<longrightarrow> flatten_spec d = flatten_spec d')"
  using flatten_spec_values [of d d']
  by (simp add: from_examples_def select_examples_def join_flatten_spec Let_def
      split: sum.splits)

theorem flatten_values_shared_witness:
  "map snd [(''q'', ''2+2''), (''a'', ''4'')] = map snd [(''x'', ''2+2''), (''y'', ''4'')] \<and>
   flatten_spec [(''q'', ''2+2''), (''a'', ''4'')] = flatten_spec [(''x'', ''2+2''), (''y'', ''4'')] \<and>
   flatten_spec [(''q'', ''2+2''), (''a'', ''4'')] = ''2+2 4'' \<and>
   join '' '' (dict_values [(''q'', ''2+2''), (''a'', ''4'')]) = ''2+2 4''"
  using flatten_values_shared [where d = "[(''q'', ''2+2''), (''a'', ''4'')]"
      and d' = "[(''x'', ''2+2''), (''y'', ''4'')]"]
  by (simp add: dict_values_def)

text \<open>
  C10. With \<open>example_keys\<close> the empty list, \<open>select_examples\<close> does not project:
  it returns the metadata of every retrieved document in full, as it does with no
  \<open>example_keys\<close> at all.
\<close>

theorem empty_example_keys_no_projection:
  assumes "example_keys self = Some []"
  shows "select_examples self input_variables =
     (case vectorstore self (join '' '' (dict_values input_variables)) (sel_k self) of
        Inl e \<Rightarrow> Inl e
      | Inr docs \<Rightarrow> Inr (map metadata docs)) \<and>
    select_examples self input_variables =
      select_examples (self\<lparr>example_keys := None\<rparr>) input_variables"
  using assms by (simp add: select_examples_def truthy_def Let_def split: sum.splits)

theorem empty_example_keys_no_projection_witness:
  "example_keys (demo_selector (Some [])) = Some [] \<and>
   select_examples (demo_selector (Some [])) [(''q'', ''2+2''), (''a'', ''4'')] =
     Inr [[(''q'', ''2+2''), (''a'', ''4'')], [(''q'', ''ocean color'')]] \<and>
   select_examples (demo_selector (Some [])) [(''q'', ''2+2''), (''a'', ''4'')] \<noteq> Inr [[], []]"
proof -
  have e: "example_keys (demo_selector (Some [])) = Some []"
    by (simp add: demo_selector_def)
  from empty_example_keys_no_projection [OF e, of "[(''q'', ''2+2''), (''a'', ''4'')]"]
  have "select_examples (demo_selector (Some [])) [(''q'', ''2+2''), (''a'', ''4'')] =
     Inr [[(''q'', ''2+2''), (''a'', ''4'')], [(''q'', ''ocean color'')]]"
    by (simp add: demo_selector_def dict_values_def ranked_def stored_docs_def slice_upto_def)
  with e show ?thesis by simp
qed

text \<open>
  C6. When a key of the allow-list is absent from the metadata of some retrieved
  document, \<open>select_examples\<close> raises \<open>KeyError\<close>, for a key of the list that some
  retrieved document lacks; it does not return that example without the key.
\<close>

theorem select_examples_missing_key:
  assumes keys: "example_keys self = Some keys"
      and docs: "vectorstore self (join '' '' (dict_values input_variables)) (sel_k self)
                   = Inr docs"
      and missing: "d \<in> set docs" "key \<in> set keys" "key \<notin> fst ` set (metadata d)"
  shows "\<exists>key'\<in>set keys. \<exists>d'\<in>set docs. key' \<notin> fst ` set (metadata d') \<and>
           select_examples self input_variables = Inl (KeyError key')"
proof -
  from missing(2) have ne: "keys \<noteq> []" by auto
  have run: "select_examples self input_variables = filter_examples keys (map metadata docs)"
    using keys docs ne by (simp add: select_examples_def truthy_def Let_def)
  show ?thesis
  proof (cases "filter_examples keys (map metadata docs)")
    case (Inl e)
    from filter_examples_Inl [OF Inl] run Inl show ?thesis by auto
  next
    case (Inr res)
    from missing(1) obtain j where j: "j < length docs" "docs ! j = d"
      by (auto simp: in_set_conv_nth)
    with filter_examples_Inr [OF Inr] have "dict_comp keys (metadata d) [] = Inr (res ! j)"
      by auto
    from dict_comp_Inr [OF this] missing show ?thesis by auto
  qed
qed

theorem select_examples_missing_key_witness:
  "example_keys (demo_selector (Some [''q'', ''a''])) = Some [''q'', ''a''] \<and>
   vectorstore (demo_selector (Some [''q'', ''a'']))
       (join '' '' (dict_values [(''q'', ''3+3'')])) (sel_k (demo_selector (Some [''q'', ''a''])))
     = Inr [\<lparr>page_content = ''2+2 4'', metadata = [(''q'', ''2+2''), (''a'', ''4'')]\<rparr>,
            \<lparr>page_content = ''ocean color'', metadata = [(''q'', ''ocean color'')]\<rparr>] \<and>
   select_examples (demo_selector (Some [''q'', ''a''])) [(''q'', ''3+3'')] = Inl (KeyError ''a'')"
proof -
  let ?self = "demo_selector (Some [''q'', ''a''])"
  let ?d0 = "\<lparr>page_content = ''2+2 4'', metadata = [(''q'', ''2+2''), (''a'', ''4'')]\<rparr>"
  let ?d1 = "\<lparr>page_content = ''ocean color'', metadata = [(''q'', ''ocean color'')]\<rparr>"
  have keys: "example_keys ?self = Some [''q'', ''a'']"
    by (simp add: demo_selector_def)
  have docs: "vectorstore ?self (join '' '' (dict_values [(''q'', ''3+3'')])) (sel_k ?self)
      = Inr [?d0, ?d1]"
    by (simp add: demo_selector_def dict_values_def ranked_def stored_docs_def slice_upto_def)
  have m1: "?d1 \<in> set [?d0, ?d1]" by simp
  have m2: "''a'' \<in> set [''q'', ''a'']" by simp
  have m3: "''a'' \<notin> fst ` set (metadata ?d1)" by simp
  from select_examples_missing_key [OF keys docs m1 m2 m3]
  have "select_examples ?self [(''q'', ''3+3'')] = Inl (KeyError ''a'')"
    by auto
  with keys docs show ?thesis by simp
qed

text \<open>The list backend is faithful.\<close>

lemma set_slice_upto: "set (slice_upto k xs) \<subseteq> set xs"
  by (auto simp: slice_upto_def dest: in_set_takeD)

lemma set_ranked: "set (ranked query docs) = set docs"
  by (auto simp: ranked_def)

lemma slice_upto_Cons: "0 < k \<Longrightarrow> slice_upto k (x # xs) = x # slice_upto (k - 1) xs"
  by (simp add: slice_upto_def take_Cons' nat_diff_distrib)

lemma list_backend_faithful: "faithful_backend list_backend"
  unfolding faithful_backend_def
proof (intro allI impI conjI ballI)
  fix texts :: "string list" and embedding :: 'e and ms :: "pydict list" and kw :: 'kw
    and vs :: VectorStore and query :: string and k :: int and docs d
  assume vs: "list_backend texts embedding (Some ms) kw = Inr vs"
    and len: "length ms = length texts"
    and docs: "vs query k = Inr docs" and d: "d \<in> set docs"
  from vs docs have "docs = slice_upto k (ranked query (stored_docs texts (Some ms)))"
    by (auto simp: list_backend_def)
  with d set_slice_upto [of k "ranked query (stored_docs texts (Some ms))"]
  have "d \<in> set (stored_docs texts (Some ms))"
    by (auto simp: set_ranked)
  then obtain t m where "(t, m) \<in> set (zip texts ms)" "d = \<lparr>page_content = t, metadata = m\<rparr>"
    by (auto simp: stored_docs_def)
  then show "\<exists>j<length texts. page_content d = texts ! j \<and> metadata d = ms ! j"
    by (auto simp: set_zip)
next
  fix texts :: "string list" and embedding :: 'e and ms :: "pydict list" and kw :: 'kw
    and vs :: VectorStore and i :: nat and k :: int
  assume vs: "list_backend texts embedding (Some ms) kw = Inr vs"
    and len: "length ms = length texts" and i: "i < length texts" and k: "0 < k"
  let ?docs = "stored_docs texts (Some ms)"
  let ?same = "filter (\<lambda>d. page_content d = texts ! i) ?docs"
  from i len have "(texts ! i, ms ! i) \<in> set (zip texts ms)"
    by (auto simp: set_zip)
  then have "\<lparr>page_content = texts ! i, metadata = ms ! i\<rparr> \<in> set ?docs"
    by (force simp: stored_docs_def)
  then have "\<lparr>page_content = texts ! i, metadata = ms ! i\<rparr> \<in> set ?same"
    by simp
  then obtain d ds where same: "?same = d # ds"
    by (cases ?same) auto
  then have "d \<in> set ?same" by simp
  then have pc: "page_content d = texts ! i" by simp
  from vs have "vs (texts ! i) k = Inr (slice_upto k (ranked (texts ! i) ?docs))"
    by (auto simp: list_backend_def)
  with same k pc
  show "\<exists>d ds. vs (texts ! i) k = Inr (d # ds) \<and> page_content d = texts ! i"
    by (simp add: ranked_def slice_upto_Cons)
qed

text \<open>
  C8, amended. With a backend that keeps the metadata it is given and finds a stored
  text again, a selector built by \<open>from_examples\<close> with a positive \<open>k\<close>, and an input
  identical to a stored example whose flattened text no different example shares, the
  first mapping \<open>select_examples\<close> returns is that example: in full when
  \<open>example_keys\<close> is unset or empty, and, when it is non-empty and every stored example
  has every listed key, with exactly the listed keys, each once, with the example's
  values.
\<close>

theorem select_examples_roundtrip:
  assumes backend: "faithful_backend cls"
      and built: "from_examples examples embeddings cls k kw = Inr sel"
      and i: "i < length examples"
      and k: "0 < k"
      and apart: "\<forall>j < length examples.
                    join '' '' (dict_values (examples ! j)) = join '' '' (dict_values (examples ! i))
                      \<longrightarrow> examples ! j = examples ! i"
      and keys: "truthy ks \<longrightarrow> (\<forall>eg\<in>set examples. set (the ks) \<subseteq> fst ` set eg)"
  shows "\<exists>r rs. select_examples (sel\<lparr>example_keys := ks\<rparr>) (examples ! i) = Inr (r # rs) \<and>
           (if truthy ks
            then fst ` set r = set (the ks) \<and> distinct (map fst r) \<and>
                 (\<forall>key\<in>set (the ks). map_of r key = map_of (examples ! i) key)
            else r = examples ! i)"
proof -
  let ?texts = "map (\<lambda>eg. join '' '' (dict_values eg)) examples"
  from built obtain vs where vs: "cls ?texts embeddings (Some examples) kw = Inr vs"
    and sel: "sel = \<lparr>vectorstore = vs, sel_k = k, example_keys = None\<rparr>"
    by (auto simp: from_examples_def Let_def split: sum.splits)
  have lenm: "length examples = length ?texts" by simp
  note contract = backend [unfolded faithful_backend_def, rule_format, OF vs lenm]
  from contract have stored_all: "\<forall>query k' docs. vs query k' = Inr docs \<longrightarrow>
      (\<forall>d\<in>set docs. \<exists>j<length ?texts. page_content d = ?texts ! j \<and> metadata d = examples ! j)"
    by (rule conjunct1)
  from contract have found_all: "\<forall>i' k'. i' < length ?texts \<longrightarrow> 0 < k' \<longrightarrow>
      (\<exists>d ds. vs (?texts ! i') k' = Inr (d # ds) \<and> page_content d = ?texts ! i')"
    by (rule conjunct2)
  have stored: "\<And>query k' docs d. vs query k' = Inr docs \<Longrightarrow> d \<in> set docs \<Longrightarrow>
      \<exists>j<length ?texts. page_content d = ?texts ! j \<and> metadata d = examples ! j"
    using stored_all by blast
  have found: "\<And>i' k'. i' < length ?texts \<Longrightarrow> 0 < k' \<Longrightarrow>
      \<exists>d ds. vs (?texts ! i') k' = Inr (d # ds) \<and> page_content d = ?texts ! i'"
    using found_all by blast
  from i have i': "i < length ?texts" by simp
  from found [OF i' k] i obtain d ds where
    docs: "vs (join '' '' (dict_values (examples ! i))) k = Inr (d # ds)"
    and pc: "page_content d = join '' '' (dict_values (examples ! i))"
    by auto
  from stored [OF docs, of d] obtain j where j: "j < length examples"
    "page_content d = join '' '' (dict_values (examples ! j))" "metadata d = examples ! j"
    by auto
  with pc apart have md: "metadata d = examples ! i"
    by auto
  have mem: "\<And>d'. d' \<in> set (d # ds) \<Longrightarrow> metadata d' \<in> set examples"
  proof -
    fix d' assume "d' \<in> set (d # ds)"
    from stored [OF docs this] show "metadata d' \<in> set examples"
      by auto
  qed
  show ?thesis
  proof (cases "truthy ks")
    case False
    with docs md show ?thesis
      by (simp add: select_examples_def Let_def sel)
  next
    case True
    let ?keys = "the ks"
    have run: "select_examples (sel\<lparr>example_keys := ks\<rparr>) (examples ! i) =
                 filter_examples ?keys (map metadata (d # ds))"
      using True docs by (simp add: select_examples_def Let_def sel)
    show ?thesis
    proof (cases "filter_examples ?keys (map metadata (d # ds))")
      case (Inl e)
      from filter_examples_Inl [OF Inl] obtain key eg where
        "key \<in> set ?keys" "eg \<in> set (map metadata (d # ds))" "key \<notin> fst ` set eg"
        by blast
      moreover from this mem have "eg \<in> set examples"
        by auto
      ultimately show ?thesis
        using keys True by blast
    next
      case (Inr res)
      from filter_examples_Inr [OF Inr]
      have len: "length res = length (d # ds)"
        and dc: "dict_comp ?keys (metadata d) [] = Inr (res ! 0)"
        by auto
      from len obtain r rs where res: "res = r # rs"
        by (cases res) auto
      from dict_comp_Inr [OF dc] md res
      have "fst ` set r = set ?keys" "distinct (map fst r)"
        "\<forall>key\<in>set ?keys. map_of r key = map_of (examples ! i) key"
        by simp_all
      with run Inr res True show ?thesis by simp
    qed
  qed
qed

theorem select_examples_roundtrip_witness:
  "faithful_backend (list_backend :: (unit, unit) VectorStore_cls) \<and>
   (\<exists>sel. from_examples demo_examples () list_backend 1 () = Inr sel \<and>
     select_examples sel (demo_examples ! 1) =
       Inr [[(''q'', ''ocean color''), (''a'', ''blue'')]] \<and>
     select_examples (sel\<lparr>example_keys := Some [''a'']\<rparr>) (demo_examples ! 1) =
       Inr [[(''a'', ''blue'')]])"
proof -
  define sel where "sel =
    \<lparr>vectorstore = (\<lambda>query k. Inr (slice_upto k (ranked query
        (stored_docs (map (\<lambda>eg. join '' '' (dict_values eg)) demo_examples)
           (Some demo_examples))))),
     sel_k = 1, example_keys = None\<rparr>"
  have built: "from_examples demo_examples () list_backend 1 () = Inr sel"
    by (simp add: sel_def from_examples_def list_backend_def Let_def)
  have i: "1 < length demo_examples"
    by (simp add: demo_examples_def)
  have k: "(0::int) < 1" by simp
  have apart: "\<forall>j < length demo_examples.
      join '' '' (dict_values (demo_examples ! j)) = join '' '' (dict_values (demo_examples ! 1))
        \<longrightarrow> demo_examples ! j = demo_examples ! 1"
    by (simp add: demo_examples_def dict_values_def less_Suc_eq)
  have keys: "truthy (Some [''a'']) \<longrightarrow>
      (\<forall>eg\<in>set demo_examples. set (the (Some [''a''])) \<subseteq> fst ` set eg)"
    by (simp add: demo_examples_def)
  have docs: "vectorstore sel (join '' '' (dict_values (demo_examples ! 1))) 1 =
      Inr [\<lparr>page_content = ''ocean color blue'', metadata = demo_examples ! 1\<rparr>]"
    by (simp add: sel_def ranked_def stored_docs_def demo_examples_def dict_values_def
        slice_upto_def)
  have selk: "sel_k sel = 1" and ek: "example_keys sel = None"
    by (simp_all add: sel_def)
  have full: "select_examples sel (demo_examples ! 1) =
      Inr [[(''q'', ''ocean color''), (''a'', ''blue'')]]"
    using docs by (simp add: select_examples_def selk ek truthy_def demo_examples_def)
  have part: "select_examples (sel\<lparr>example_keys := Some [''a'']\<rparr>) (demo_examples ! 1) =
       Inr [[(''a'', ''blue'')]]"
    using docs by (simp add: select_examples_def selk truthy_def demo_examples_def getitem_def)
  from select_examples_roundtrip [OF list_backend_faithful built i k apart keys]
    list_backend_faithful built full part
  show ?thesis by blast
qed

text \<open>
  C8 as stated fails. Two different examples flatten to the same text \<open>a b c\<close>, so
  the query made from the second is the query made from the first; with \<open>k = 1\<close> the
  list backend, which keeps the metadata it is given and returns it, answers with the
  first example.
\<close>

theorem select_examples_roundtrip_counterexample:
  "(case from_examples clash_examples () list_backend 1 () of
      Inr sel \<Rightarrow> select_examples sel (clash_examples ! 1) = Inr [clash_examples ! 0]
    | Inl e \<Rightarrow> False) \<and>
   map_of (clash_examples ! 0) \<noteq> map_of (clash_examples ! 1)"
proof -
  have "map_of (clash_examples ! 0) ''a'' \<noteq> map_of (clash_examples ! 1) ''a''"
    by (simp add: clash_examples_def)
  then have "map_of (clash_examples ! 0) \<noteq> map_of (clash_examples ! 1)"
    by metis
  moreover have "(case from_examples clash_examples () list_backend 1 () of
      Inr sel \<Rightarrow> select_examples sel (clash_examples ! 1) = Inr [clash_examples ! 0]
    | Inl e \<Rightarrow> False)"
    by (simp add: from_examples_def list_backend_def clash_examples_def dict_values_def Let_def
        select_examples_def truthy_def slice_upto_def ranked_def stored_docs_def)
  ultimately show ?thesis by simp
qed

end
